theory Spec2Isabelle
  imports Main
begin

section \<open>Strings and characters\<close>

text \<open>
  A JavaScript string is a sequence of code units; \<open>length\<close> counts them. The model uses
  \<^typ>\<open>string\<close>, whose characters are the code units 0 to 255 (the Latin-1 range), and
  gives every character function the value JavaScript has on that range.
\<close>

definition is_upper_ascii :: "char \<Rightarrow> bool" where
  "is_upper_ascii c = (65 \<le> (of_char c :: nat) \<and> (of_char c :: nat) \<le> 90)"

definition is_lower_ascii :: "char \<Rightarrow> bool" where
  "is_lower_ascii c = (97 \<le> (of_char c :: nat) \<and> (of_char c :: nat) \<le> 122)"

definition is_letter :: "char \<Rightarrow> bool" where
  \<comment> \<open>the character class \<^verbatim>\<open>[A-Za-z]\<close>\<close>
  "is_letter c = (is_upper_ascii c \<or> is_lower_ascii c)"

definition is_digit :: "char \<Rightarrow> bool" where
  \<comment> \<open>the character class \<^verbatim>\<open>\d\<close>, which is \<^verbatim>\<open>[0-9]\<close>\<close>
  "is_digit c = (48 \<le> (of_char c :: nat) \<and> (of_char c :: nat) \<le> 57)"

definition is_alnum :: "char \<Rightarrow> bool" where
  \<comment> \<open>the character class \<^verbatim>\<open>[A-Za-z\d]\<close>\<close>
  "is_alnum c = (is_letter c \<or> is_digit c)"

definition is_line_terminator :: "char \<Rightarrow> bool" where
  \<comment> \<open>what \<^verbatim>\<open>.\<close> does not match: LF and CR (U+2028 and U+2029 lie outside the range)\<close>
  "is_line_terminator c = ((of_char c :: nat) = 10 \<or> (of_char c :: nat) = 13)"

definition is_whitespace :: "char \<Rightarrow> bool" where
  \<comment> \<open>the character class \<^verbatim>\<open>\s\<close>: TAB, LF, VT, FF, CR, space and the no-break space\<close>
  "is_whitespace c = ((9 \<le> (of_char c :: nat) \<and> (of_char c :: nat) \<le> 13)
     \<or> (of_char c :: nat) = 32 \<or> (of_char c :: nat) = 160)"

definition toUpperCase_char :: "char \<Rightarrow> char" where
  \<comment> \<open>\<^verbatim>\<open>toUpperCase\<close> on one ASCII character; the source applies it to the first
      character of a field name only\<close>
  "toUpperCase_char c = (if is_lower_ascii c then char_of ((of_char c :: nat) - 32) else c)"

definition toLowerCase_char :: "char \<Rightarrow> char" where
  \<comment> \<open>\<^verbatim>\<open>toLowerCase\<close> on one code unit: A-Z, and the Latin-1 capitals
      U+00C0 to U+00DE without the multiplication sign U+00D7\<close>
  "toLowerCase_char c =
     (if is_upper_ascii c
         \<or> (192 \<le> (of_char c :: nat) \<and> (of_char c :: nat) \<le> 222 \<and> (of_char c :: nat) \<noteq> 215)
      then char_of ((of_char c :: nat) + 32) else c)"

definition toLowerCase :: "string \<Rightarrow> string" where
  "toLowerCase s = map toLowerCase_char s"

definition capitalize :: "string \<Rightarrow> string" where
  \<comment> \<open>\<^verbatim>\<open>field.charAt(0).toUpperCase() + field.slice(1)\<close>\<close>
  "capitalize s = (case s of [] \<Rightarrow> [] | c # cs \<Rightarrow> toUpperCase_char c # cs)"

definition digit_char :: "nat \<Rightarrow> char" where
  "digit_char d = char_of (48 + d)"

fun string_of_nat :: "nat \<Rightarrow> string" where
  \<comment> \<open>the decimal numeral a template literal prints for a non-negative integer\<close>
  "string_of_nat n =
     (if n < 10 then [digit_char n] else string_of_nat (n div 10) @ [digit_char (n mod 10)])"

declare string_of_nat.simps [simp del]

section \<open>The Field widget (FormField)\<close>

text \<open>
  \<^verbatim>\<open>replace(/\s+/g, '-')\<close>: scanning from the left, each maximal run of whitespace is
  one match and is replaced by one hyphen; every other character is kept.
\<close>

function replace_ws :: "string \<Rightarrow> string" where
  "replace_ws [] = []"
| "replace_ws (c # cs) =
     (if is_whitespace c then CHR ''-'' # replace_ws (dropWhile is_whitespace cs)
      else c # replace_ws cs)"
  by pat_completeness auto
termination
  by (relation "measure length") (auto simp: length_dropWhile_le less_Suc_eq_le)

definition inputId :: "string \<Rightarrow> string" where
  \<comment> \<open>\<^verbatim>\<open>`field-${this.label.toLowerCase().replace(/\s+/g, '-')}`\<close>\<close>
  "inputId label = ''field-'' @ replace_ws (toLowerCase label)"

definition hasError :: "string \<Rightarrow> bool" where
  \<comment> \<open>\<^verbatim>\<open>Boolean(this.error)\<close>\<close>
  "hasError err = (err \<noteq> [])"

text \<open>
  The claim's wording, for comparison with the source: walk over the lower-cased label,
  remembering whether the previous character was whitespace, and write one hyphen where
  a run of whitespace starts.
\<close>

fun hyphenate_runs :: "bool \<Rightarrow> string \<Rightarrow> string" where
  "hyphenate_runs in_run [] = []"
| "hyphenate_runs in_run (c # cs) =
     (if is_whitespace c
      then (if in_run then hyphenate_runs True cs else CHR ''-'' # hyphenate_runs True cs)
      else c # hyphenate_runs False cs)"

definition spec_inputId :: "string \<Rightarrow> string" where
  "spec_inputId label = ''field-'' @ hyphenate_runs False (map toLowerCase_char label)"

section \<open>JavaScript values and the network\<close>

text \<open>
  A response body is any JSON value. An object is its list of properties, one entry for
  each key. Only the truthiness of numbers matters below, so they are integers.
\<close>

datatype jsval =
    JUndefined
  | JNull
  | JBool bool
  | JNum int
  | JStr string
  | JObj "(string \<times> jsval) list"

fun truthy :: "jsval \<Rightarrow> bool" where
  "truthy JUndefined = False"
| "truthy JNull = False"
| "truthy (JBool b) = b"
| "truthy (JNum n) = (n \<noteq> 0)"
| "truthy (JStr s) = (s \<noteq> [])"
| "truthy (JObj kvs) = True"

fun nullish :: "jsval \<Rightarrow> bool" where
  "nullish JUndefined = True"
| "nullish JNull = True"
| "nullish v = False"

fun get_prop :: "jsval \<Rightarrow> string \<Rightarrow> jsval" where
  \<comment> \<open>reading the property \<open>k\<close> of a value that is neither null nor undefined; the keys
      read below (message, success, user) are undefined on strings, numbers and booleans\<close>
  "get_prop (JObj kvs) k = (case map_of kvs k of Some v \<Rightarrow> v | None \<Rightarrow> JUndefined)"
| "get_prop v k = JUndefined"

definition opt_chain :: "jsval \<Rightarrow> string \<Rightarrow> jsval" where
  \<comment> \<open>\<^verbatim>\<open>v?.k\<close>: undefined when \<open>v\<close> is null or undefined\<close>
  "opt_chain v k = (if nullish v then JUndefined else get_prop v k)"

record response =
  status :: int
  data :: jsval

text \<open>
  What the \<^verbatim>\<open>try\<close> block can throw: a TypeError (a property read on null or
  undefined), which has no \<open>response\<close> property, or the error of a rejected request,
  whose \<open>response\<close> property is the response when there is one.
\<close>

datatype exn =
    TypeError
  | AxiosError "response option"

fun error_response :: "exn \<Rightarrow> response option" where
  \<comment> \<open>\<^verbatim>\<open>error.response\<close>, with \<open>None\<close> for undefined\<close>
  "error_response TypeError = None"
| "error_response (AxiosError r) = r"

definition member :: "jsval \<Rightarrow> string \<Rightarrow> exn + jsval" where
  \<comment> \<open>\<^verbatim>\<open>v.k\<close>: a TypeError when \<open>v\<close> is null or undefined\<close>
  "member v k = (if nullish v then Inl TypeError else Inr (get_prop v k))"

datatype reply =
    NoReply
  | Reply response

text \<open>
  \<^verbatim>\<open>axios.post\<close> with the library's default settings: the promise resolves with the
  response when its status is 2xx; it rejects with an error carrying the response for
  any other status, and with an error carrying no response when none arrived.
\<close>

definition axios_post :: "reply \<Rightarrow> exn + response" where
  "axios_post r =
     (case r of
        NoReply \<Rightarrow> Inl (AxiosError None)
      | Reply resp \<Rightarrow>
          if 200 \<le> status resp \<and> status resp < 300 then Inr resp
          else Inl (AxiosError (Some resp)))"

record env =
  csrf_meta :: "string option"
  network :: reply

record request =
  url :: string
  body_username :: string
  body_password :: string
  csrf_header :: string

record effects =
  requests :: "request list"
  commits :: "(string \<times> jsval) list"
  emits :: "(string \<times> string) list"

definition no_effects :: effects where
  "no_effects = \<lparr>requests = [], commits = [], emits = []\<rparr>"

section \<open>The login form with validation rules (LoginForm)\<close>

record form =
  username :: string
  password :: string
  error :: string
  isLoading :: bool

definition initial_form :: form where
  \<comment> \<open>\<^verbatim>\<open>data()\<close>\<close>
  "initial_form = \<lparr>username = [], password = [], error = [], isLoading = False\<rparr>"

record rule =
  required :: bool
  minLength :: "nat option"
  pattern :: "(string \<Rightarrow> bool) option"
  message :: "string option"

datatype field = Username | Password

fun field_name :: "field \<Rightarrow> string" where
  "field_name Username = ''username''"
| "field_name Password = ''password''"

fun field_value :: "form \<Rightarrow> field \<Rightarrow> string" where
  \<comment> \<open>\<^verbatim>\<open>this[field]\<close>\<close>
  "field_value s Username = username s"
| "field_value s Password = password s"

text \<open>
  The regular expression \<^verbatim>\<open>/^(?=.*[A-Za-z])(?=.*\d)[A-Za-z\d]{8,}$/\<close>, matched from
  the start of the value. A lookahead \<^verbatim>\<open>(?=.*C)\<close> succeeds when a character of class
  \<open>C\<close> follows some characters that are not line terminators. Without the \<open>m\<close> flag
  \<^verbatim>\<open>$\<close> is the end of the value, so the class \<^verbatim>\<open>[A-Za-z\d]\<close> has to cover all of it,
  at least eight characters.
\<close>

fun lookahead :: "(char \<Rightarrow> bool) \<Rightarrow> string \<Rightarrow> bool" where
  "lookahead C [] = False"
| "lookahead C (c # cs) = (C c \<or> (\<not> is_line_terminator c \<and> lookahead C cs))"

definition password_pattern :: "string \<Rightarrow> bool" where
  "password_pattern v =
     (lookahead is_letter v \<and> lookahead is_digit v \<and> list_all is_alnum v \<and> 8 \<le> length v)"

definition password_message :: string where
  "password_message = ''Password must be at least 8 characters and include letters and numbers''"

fun validationRules :: "field \<Rightarrow> rule" where
  "validationRules Username =
     \<lparr>required = True, minLength = Some 3, pattern = None, message = None\<rparr>"
| "validationRules Password =
     \<lparr>required = True, minLength = None, pattern = Some password_pattern,
      message = Some password_message\<rparr>"

definition isValid :: "form \<Rightarrow> bool" where
  \<comment> \<open>the truthiness of
      \<^verbatim>\<open>this.username.length >= 3 && this.password.match(this.validationRules.password.pattern)\<close>\<close>
  "isValid s =
     (3 \<le> length (username s)
      \<and> (case pattern (validationRules Password) of
           Some p \<Rightarrow> p (password s)
         | None \<Rightarrow> True \<comment> \<open>\<^verbatim>\<open>match(undefined)\<close> matches the empty pattern\<close>))"

definition check_pattern :: "rule \<Rightarrow> string \<Rightarrow> string" where
  \<comment> \<open>the last test of \<^verbatim>\<open>validateField\<close> and its final \<^verbatim>\<open>return ""\<close>; a rule with a
      pattern and no message would return undefined, which is as falsy as the empty string\<close>
  "check_pattern rules v =
     (case pattern rules of
        Some p \<Rightarrow> if \<not> p v then (case message rules of Some m \<Rightarrow> m | None \<Rightarrow> []) else []
      | None \<Rightarrow> [])"

definition validateField :: "form \<Rightarrow> field \<Rightarrow> string" where
  "validateField s f =
     (let rules = validationRules f; v = field_value s f in
      if required rules \<and> v = []
      then capitalize (field_name f) @ '' is required''
      else
        (case minLength rules of
           Some n \<Rightarrow>
             if n \<noteq> 0 \<and> length v < n
             then capitalize (field_name f) @ '' must be at least '' @ string_of_nat n
                    @ '' characters''
             else check_pattern rules v
         | None \<Rightarrow> check_pattern rules v))"

definition validateForm :: "form \<Rightarrow> form \<times> bool" where
  \<comment> \<open>the form after the call, and the value returned\<close>
  "validateForm s =
     (let usernameError = validateField s Username;
          passwordError = validateField s Password in
      if usernameError \<noteq> [] \<or> passwordError \<noteq> []
      then (s\<lparr>error := (if usernameError \<noteq> [] then usernameError else passwordError)\<rparr>, False)
      else (s\<lparr>error := []\<rparr>, True))"

text \<open>
  The right-hand side of the assignment in the \<^verbatim>\<open>catch\<close> block is
  \<^verbatim>\<open>m || st === 401 ? A : st === 429 ? B : C\<close> with \<open>m\<close> the value of
  \<^verbatim>\<open>error.response?.data?.message\<close> and \<open>st\<close> that of \<^verbatim>\<open>error.response?.status\<close>.
  In JavaScript \<^verbatim>\<open>===\<close> binds tighter than \<^verbatim>\<open>||\<close>, and \<^verbatim>\<open>||\<close> tighter than
  \<^verbatim>\<open>? :\<close>, so the expression is \<^verbatim>\<open>(m || (st === 401)) ? A : ((st === 429) ? B : C)\<close>.
\<close>

definition error_message :: "exn \<Rightarrow> jsval" where
  \<comment> \<open>\<^verbatim>\<open>error.response?.data?.message\<close>\<close>
  "error_message e =
     (case error_response e of
        None \<Rightarrow> JUndefined
      | Some resp \<Rightarrow> opt_chain (data resp) ''message'')"

definition error_status :: "exn \<Rightarrow> int option" where
  \<comment> \<open>\<^verbatim>\<open>error.response?.status\<close>, with \<open>None\<close> for undefined\<close>
  "error_status e = map_option status (error_response e)"

definition catch_error :: "exn \<Rightarrow> string" where
  "catch_error e =
     (if truthy (error_message e) \<or> error_status e = Some 401
      then ''Invalid username or password''
      else if error_status e = Some 429
      then ''Too many attempts. Please try again later''
      else ''Authentication failed. Please try again.'')"

definition try_block :: "env \<Rightarrow> form \<Rightarrow> (exn + unit) \<times> effects" where
  \<comment> \<open>the body of \<^verbatim>\<open>try\<close>: how it ends (\<open>Inl\<close> the exception thrown) and what it did.
      The header value is computed before \<^verbatim>\<open>axios.post\<close> is called:
      \<^verbatim>\<open>querySelector\<close> returns null when the page has no such meta element.\<close>
  "try_block e s =
     (case csrf_meta e of
        None \<Rightarrow> (Inl TypeError, no_effects)
      | Some token \<Rightarrow>
          (let sent = no_effects\<lparr>requests :=
                 [\<lparr>url = ''/api/login'', body_username = username s,
                   body_password = password s, csrf_header = token\<rparr>]\<rparr> in
           case axios_post (network e) of
             Inl err \<Rightarrow> (Inl err, sent)
           | Inr resp \<Rightarrow>
               (case member (data resp) ''success'' of
                  Inl err \<Rightarrow> (Inl err, sent)
                | Inr success \<Rightarrow>
                    if truthy success
                    then (Inr (),
                          sent\<lparr>commits := [(''setUser'', get_prop (data resp) ''user'')],
                               emits := [(''success'', ''Login successful!'')]\<rparr>)
                    else (Inr (), sent))))"

definition handleSubmit :: "env \<Rightarrow> form \<Rightarrow> form \<times> effects" where
  \<comment> \<open>one submission, from the submit event to the end of \<^verbatim>\<open>finally\<close>; the fields are
      disabled while the request is pending, so the form is not edited in between\<close>
  "handleSubmit e s =
     (case validateForm s of
        (s1, False) \<Rightarrow> (s1, no_effects)
      | (s1, True) \<Rightarrow>
          (let s2 = s1\<lparr>isLoading := True\<rparr> in
           case try_block e s2 of
             (Inl err, fx) \<Rightarrow> (s2\<lparr>error := catch_error err, isLoading := False\<rparr>, fx)
           | (Inr u, fx) \<Rightarrow> (s2\<lparr>isLoading := False\<rparr>, fx)))"

definition sent_request :: "form \<Rightarrow> string \<Rightarrow> effects" where
  \<comment> \<open>the effects of a submission that issued its request and did nothing else\<close>
  "sent_request s token =
     \<lparr>requests = [\<lparr>url = ''/api/login'', body_username = username s,
                    body_password = password s, csrf_header = token\<rparr>],
      commits = [], emits = []\<rparr>"

text \<open>
  The life of a form: it starts as \<^verbatim>\<open>data()\<close> returns it; an input event of a field
  stores the new value (\<^verbatim>\<open>v-model\<close>), a submit event runs \<^verbatim>\<open>handleSubmit\<close>.
\<close>

datatype event =
    Input field string
  | Submit env

fun step :: "form \<Rightarrow> event \<Rightarrow> form" where
  "step s (Input Username v) = s\<lparr>username := v\<rparr>"
| "step s (Input Password v) = s\<lparr>password := v\<rparr>"
| "step s (Submit e) = fst (handleSubmit e s)"

definition run :: "event list \<Rightarrow> form" where
  "run evs = foldl step initial_form evs"

text \<open>A form that passes validation, used for the concrete submissions below.\<close>

abbreviation alice :: form where
  "alice \<equiv> \<lparr>username = ''alice'', password = ''passw0rd1'', error = [], isLoading = False\<rparr>"

section \<open>Facts about validation\<close>

lemma capitalize_username: "capitalize ''username'' = ''Username''"
  by (simp add: capitalize_def toUpperCase_char_def is_lower_ascii_def char_of_eq_iff)

lemma capitalize_password: "capitalize ''password'' = ''Password''"
  by (simp add: capitalize_def toUpperCase_char_def is_lower_ascii_def char_of_eq_iff)

lemma string_of_nat_3: "string_of_nat 3 = ''3''"
  by (simp add: string_of_nat.simps digit_char_def char_of_eq_iff)

lemma validateField_Username:
  "validateField s Username =
     (if username s = [] then ''Username is required''
      else if length (username s) < 3 then ''Username must be at least 3 characters''
      else [])"
  by (simp add: validateField_def check_pattern_def capitalize_username string_of_nat_3)

lemma validateField_Password:
  "validateField s Password =
     (if password s = [] then ''Password is required''
      else if \<not> password_pattern (password s) then password_message
      else [])"
  by (simp add: validateField_def check_pattern_def capitalize_password)

lemma alnum_not_line_terminator: "is_alnum c \<Longrightarrow> \<not> is_line_terminator c"
  by (auto simp: is_alnum_def is_letter_def is_digit_def is_upper_ascii_def is_lower_ascii_def
      is_line_terminator_def)

lemma lookahead_alnum: "list_all is_alnum v \<Longrightarrow> lookahead C v = (\<exists>c \<in> set v. C c)"
  by (induction v) (auto simp: alnum_not_line_terminator)

lemma lookahead_imp_ex: "lookahead C v \<Longrightarrow> \<exists>c \<in> set v. C c"
  by (induction v) auto

lemma password_pattern_iff:
  "password_pattern v =
     (8 \<le> length v \<and> list_all is_alnum v \<and> (\<exists>c \<in> set v. is_letter c) \<and> (\<exists>c \<in> set v. is_digit c))"
  by (auto simp: password_pattern_def lookahead_alnum)

lemma password_pattern_nonempty: "password_pattern v \<Longrightarrow> v \<noteq> []"
  by (auto simp: password_pattern_def)

lemma password_message_nonempty: "password_message \<noteq> []"
  by (simp add: password_message_def)

lemma validateForm_ok: "snd (validateForm s) = (3 \<le> length (username s) \<and> password_pattern (password s))"
  by (auto simp: validateForm_def Let_def validateField_Username validateField_Password
      password_message_nonempty dest: password_pattern_nonempty)

lemma isValid_iff: "isValid s = (3 \<le> length (username s) \<and> password_pattern (password s))"
  by (simp add: isValid_def)

section \<open>Facts about a submission\<close>

lemma validateForm_pass:
  "isValid s \<Longrightarrow> validateForm s = (s\<lparr>error := []\<rparr>, True)"
  by (auto simp: isValid_iff validateForm_def Let_def validateField_Username
      validateField_Password dest: password_pattern_nonempty)

lemma validateForm_fail:
  "\<not> isValid s \<Longrightarrow>
   validateForm s =
     (s\<lparr>error := (if validateField s Username \<noteq> [] then validateField s Username
                   else validateField s Password)\<rparr>, False)"
  by (auto simp: isValid_iff validateForm_def Let_def validateField_Username
      validateField_Password password_message_nonempty)

lemma handleSubmit_invalid:
  "\<not> isValid s \<Longrightarrow>
   handleSubmit e s =
     (s\<lparr>error := (if validateField s Username \<noteq> [] then validateField s Username
                   else validateField s Password)\<rparr>, no_effects)"
  by (simp add: handleSubmit_def validateForm_fail)

lemma handleSubmit_valid:
  "isValid s \<Longrightarrow>
   handleSubmit e s =
     (case try_block e (s\<lparr>error := [], isLoading := True\<rparr>) of
        (Inl err, fx) \<Rightarrow> (s\<lparr>error := catch_error err, isLoading := False\<rparr>, fx)
      | (Inr u, fx) \<Rightarrow> (s\<lparr>error := [], isLoading := False\<rparr>, fx))"
  by (simp add: handleSubmit_def validateForm_pass Let_def split: prod.splits sum.splits)

lemma try_block_no_meta:
  "csrf_meta e = None \<Longrightarrow> try_block e s = (Inl TypeError, no_effects)"
  by (simp add: try_block_def)

lemma try_block_no_reply:
  "csrf_meta e = Some t \<Longrightarrow> network e = NoReply \<Longrightarrow>
   try_block e s = (Inl (AxiosError None), sent_request s t)"
  by (simp add: try_block_def axios_post_def sent_request_def no_effects_def)

lemma try_block_rejected:
  "csrf_meta e = Some t \<Longrightarrow> network e = Reply r \<Longrightarrow> \<not> (200 \<le> status r \<and> status r < 300) \<Longrightarrow>
   try_block e s = (Inl (AxiosError (Some r)), sent_request s t)"
  by (auto simp: try_block_def axios_post_def sent_request_def no_effects_def)

lemma try_block_resolved:
  "csrf_meta e = Some t \<Longrightarrow> network e = Reply r \<Longrightarrow> 200 \<le> status r \<Longrightarrow> status r < 300 \<Longrightarrow>
   try_block e s =
     (if nullish (data r) then (Inl TypeError, sent_request s t)
      else if truthy (get_prop (data r) ''success'')
      then (Inr (), (sent_request s t)\<lparr>commits := [(''setUser'', get_prop (data r) ''user'')],
                                        emits := [(''success'', ''Login successful!'')]\<rparr>)
      else (Inr (), sent_request s t))"
  by (simp add: try_block_def axios_post_def sent_request_def no_effects_def member_def)

lemma catch_error_nonempty: "catch_error err \<noteq> []"
  by (simp add: catch_error_def)

lemma catch_error_no_response:
  "error_response err = None \<Longrightarrow> catch_error err = ''Authentication failed. Please try again.''"
  by (simp add: catch_error_def error_message_def error_status_def)

lemma catch_error_response:
  "catch_error (AxiosError (Some r)) =
     (if truthy (opt_chain (data r) ''message'') \<or> status r = 401
      then ''Invalid username or password''
      else if status r = 429 then ''Too many attempts. Please try again later''
      else ''Authentication failed. Please try again.'')"
  by (simp add: catch_error_def error_message_def error_status_def)

lemma isValid_alice: "isValid alice"
  by (simp add: isValid_iff password_pattern_def is_letter_def is_digit_def is_alnum_def
      is_upper_ascii_def is_lower_ascii_def is_line_terminator_def)

section \<open>Error messages of a failed request\<close>

text \<open>
  C1. The claim: when the error response body contains a message, that message is the
  form error; else 401 and 429 have their own messages; else the generic one. Evaluated
  on the code, a 403 response whose body is \<^verbatim>\<open>{message: "Account locked"}\<close> leaves
  the form error \<open>Invalid username or password\<close>, not the body's message: the
  conditional takes \<^verbatim>\<open>message || status === 401\<close> as its test.
\<close>

theorem C1_body_message_not_used:
  "error (fst (handleSubmit
      \<lparr>csrf_meta = Some ''tok'',
       network = Reply \<lparr>status = 403, data = JObj [(''message'', JStr ''Account locked'')]\<rparr>\<rparr>
      alice))
   = ''Invalid username or password''"
  by (simp add: handleSubmit_valid isValid_alice try_block_rejected catch_error_response
      opt_chain_def)

text \<open>
  C2, as stated: every 429 response gives \<open>Too many attempts. Please try again later\<close>.
  It fails for a 429 response whose body carries a message.
\<close>

theorem C2_counterexample:
  "error (fst (handleSubmit
      \<lparr>csrf_meta = Some ''tok'',
       network = Reply \<lparr>status = 429, data = JObj [(''message'', JStr ''Slow down'')]\<rparr>\<rparr>
      alice))
   \<noteq> ''Too many attempts. Please try again later''"
  by (simp add: handleSubmit_valid isValid_alice try_block_rejected catch_error_response
      opt_chain_def)

text \<open>
  C2, amended: for a submission that passes validation and is answered with a response
  whose body carries no message (none, or a falsy one), the form error is
  \<open>Invalid username or password\<close> when the status is 401 and
  \<open>Too many attempts. Please try again later\<close> when it is 429.
\<close>

theorem C2_status_messages:
  assumes "isValid s"
    and "csrf_meta e = Some t"
    and "network e = Reply r"
    and "\<not> truthy (opt_chain (data r) ''message'')"
  shows "(status r = 401 \<longrightarrow>
            error (fst (handleSubmit e s)) = ''Invalid username or password'')
       \<and> (status r = 429 \<longrightarrow>
            error (fst (handleSubmit e s)) = ''Too many attempts. Please try again later'')"
proof -
  have rejected: "status r = 401 \<or> status r = 429 \<Longrightarrow> \<not> (200 \<le> status r \<and> status r < 300)"
    by auto
  show ?thesis
    using assms rejected
    by (auto simp: handleSubmit_valid try_block_rejected catch_error_response)
qed

theorem C2_status_messages_witness:
  "error (fst (handleSubmit
      \<lparr>csrf_meta = Some ''tok'', network = Reply \<lparr>status = 401, data = JObj []\<rparr>\<rparr> alice))
     = ''Invalid username or password''
   \<and> error (fst (handleSubmit
      \<lparr>csrf_meta = Some ''tok'', network = Reply \<lparr>status = 429, data = JNull\<rparr>\<rparr> alice))
     = ''Too many attempts. Please try again later''"
  using
    C2_status_messages [of alice
      "\<lparr>csrf_meta = Some ''tok'', network = Reply \<lparr>status = 401, data = JObj []\<rparr>\<rparr>"
      "''tok''" "\<lparr>status = 401, data = JObj []\<rparr>"]
    C2_status_messages [of alice
      "\<lparr>csrf_meta = Some ''tok'', network = Reply \<lparr>status = 429, data = JNull\<rparr>\<rparr>"
      "''tok''" "\<lparr>status = 429, data = JNull\<rparr>"]
  by (simp add: isValid_alice opt_chain_def)

text \<open>
  C3, as stated: a 2xx response whose body lacks a true success flag also sets a
  non-empty form error. The code has no branch for it: after a 200 response with body
  \<^verbatim>\<open>{success: false}\<close> the form error is empty.
\<close>

theorem C3_counterexample:
  "error (fst (handleSubmit
      \<lparr>csrf_meta = Some ''tok'',
       network = Reply \<lparr>status = 200, data = JObj [(''success'', JBool False)]\<rparr>\<rparr>
      alice))
   = []"
  by (simp add: handleSubmit_valid isValid_alice try_block_resolved)

text \<open>
  C3, amended: for every submission that passes validation and whose request fails (no
  response, or a response with a non-2xx status) the form error is a non-empty message
  after the submission; after a 2xx response whose body is an object (or any value but
  null and undefined) without a truthy success flag the form error is empty, and nothing
  is committed or emitted.
\<close>

theorem C3_failure_sets_error:
  assumes "isValid s"
  shows "(network e = NoReply \<longrightarrow> error (fst (handleSubmit e s)) \<noteq> [])
       \<and> (\<forall>r. network e = Reply r \<and> \<not> (200 \<le> status r \<and> status r < 300) \<longrightarrow>
              error (fst (handleSubmit e s)) \<noteq> [])
       \<and> (\<forall>r t. csrf_meta e = Some t \<and> network e = Reply r
              \<and> 200 \<le> status r \<and> status r < 300
              \<and> \<not> nullish (data r) \<and> \<not> truthy (get_prop (data r) ''success'') \<longrightarrow>
              error (fst (handleSubmit e s)) = []
              \<and> commits (snd (handleSubmit e s)) = []
              \<and> emits (snd (handleSubmit e s)) = [])"
proof (intro conjI allI impI)
  assume "network e = NoReply"
  then show "error (fst (handleSubmit e s)) \<noteq> []"
    using assms
    by (cases "csrf_meta e")
      (simp_all add: handleSubmit_valid try_block_no_meta try_block_no_reply
        catch_error_nonempty)
next
  fix r
  assume "network e = Reply r \<and> \<not> (200 \<le> status r \<and> status r < 300)"
  then show "error (fst (handleSubmit e s)) \<noteq> []"
    using assms
    by (cases "csrf_meta e")
      (simp_all add: handleSubmit_valid try_block_no_meta try_block_rejected
        catch_error_nonempty)
next
  fix r t
  assume h: "csrf_meta e = Some t \<and> network e = Reply r
     \<and> 200 \<le> status r \<and> status r < 300
     \<and> \<not> nullish (data r) \<and> \<not> truthy (get_prop (data r) ''success'')"
  then have tb: "try_block e (s\<lparr>error := [], isLoading := True\<rparr>)
      = (Inr (), sent_request (s\<lparr>error := [], isLoading := True\<rparr>) t)"
    by (simp add: try_block_resolved)
  show "error (fst (handleSubmit e s)) = []"
    using assms tb by (simp add: handleSubmit_valid)
  show "commits (snd (handleSubmit e s)) = []"
    using assms tb by (simp add: handleSubmit_valid sent_request_def)
  show "emits (snd (handleSubmit e s)) = []"
    using assms tb by (simp add: handleSubmit_valid sent_request_def)
qed

theorem C3_failure_sets_error_witness:
  "error (fst (handleSubmit \<lparr>csrf_meta = Some ''tok'', network = NoReply\<rparr> alice)) \<noteq> []
   \<and> error (fst (handleSubmit
        \<lparr>csrf_meta = Some ''tok'', network = Reply \<lparr>status = 500, data = JStr ''oops''\<rparr>\<rparr>
        alice)) \<noteq> []
   \<and> error (fst (handleSubmit
        \<lparr>csrf_meta = Some ''tok'',
         network = Reply \<lparr>status = 200, data = JObj [(''success'', JBool False)]\<rparr>\<rparr>
        alice)) = []"
  using
    C3_failure_sets_error [of alice "\<lparr>csrf_meta = Some ''tok'', network = NoReply\<rparr>"]
    C3_failure_sets_error [of alice
      "\<lparr>csrf_meta = Some ''tok'', network = Reply \<lparr>status = 500, data = JStr ''oops''\<rparr>\<rparr>"]
    C3_failure_sets_error [of alice
      "\<lparr>csrf_meta = Some ''tok'',
        network = Reply \<lparr>status = 200, data = JObj [(''success'', JBool False)]\<rparr>\<rparr>"]
  by (simp add: isValid_alice)

section \<open>Validation on submit\<close>

text \<open>
  C4, as stated: whenever the username or the password is empty, the form error is the
  \<open>... is required\<close> message of the first empty field. It fails when the password is
  empty and the username is not empty but too short: the username's length message is
  the form error.
\<close>

theorem C4_counterexample:
  "error (fst (handleSubmit \<lparr>csrf_meta = Some ''tok'', network = NoReply\<rparr>
      \<lparr>username = ''ab'', password = [], error = [], isLoading = False\<rparr>))
   \<noteq> ''Password is required''"
  by (simp add: handleSubmit_invalid isValid_iff validateField_Username)

text \<open>
  C4, amended: for every submission in which the username or the password is the empty
  string, the rule of each empty field yields \<open><Field> is required\<close> (the field name
  capitalised), validation fails and no network request is issued (nothing is committed
  or emitted either). The form error is \<open>Username is required\<close> when the username is
  empty, \<open>Password is required\<close> when the password is empty and the username has at least
  3 characters, and \<open>Username must be at least 3 characters\<close> when the password is empty
  and the username has 1 or 2 characters.
\<close>

theorem C4_empty_field:
  assumes "username s = [] \<or> password s = []"
  shows "(\<forall>f. field_value s f = [] \<longrightarrow>
            validateField s f = capitalize (field_name f) @ '' is required'')
       \<and> snd (validateForm s) = False
       \<and> snd (handleSubmit e s) = \<lparr>requests = [], commits = [], emits = []\<rparr>
       \<and> (username s = [] \<longrightarrow> error (fst (handleSubmit e s)) = ''Username is required'')
       \<and> (3 \<le> length (username s) \<longrightarrow>
            error (fst (handleSubmit e s)) = ''Password is required'')
       \<and> (username s \<noteq> [] \<and> length (username s) < 3 \<longrightarrow>
            error (fst (handleSubmit e s)) = ''Username must be at least 3 characters'')"
proof -
  have invalid: "\<not> isValid s"
    using assms by (auto simp: isValid_iff dest: password_pattern_nonempty)
  have required: "validateField s f = capitalize (field_name f) @ '' is required''"
    if "field_value s f = []" for f
    using that
    by (cases f)
      (simp_all add: validateField_Username validateField_Password capitalize_username
        capitalize_password)
  have no_call: "snd (handleSubmit e s) = \<lparr>requests = [], commits = [], emits = []\<rparr>"
    using invalid by (simp add: handleSubmit_invalid no_effects_def)
  have fails: "snd (validateForm s) = False"
    using invalid by (simp add: validateForm_ok isValid_iff)
  have err: "error (fst (handleSubmit e s)) =
      (if validateField s Username \<noteq> [] then validateField s Username
       else validateField s Password)"
    using invalid by (simp add: handleSubmit_invalid)
  have e1: "username s = [] \<longrightarrow> error (fst (handleSubmit e s)) = ''Username is required''"
    by (simp add: err validateField_Username)
  have e2: "3 \<le> length (username s) \<longrightarrow>
      error (fst (handleSubmit e s)) = ''Password is required''"
    using assms by (auto simp: err validateField_Username validateField_Password)
  have e3: "username s \<noteq> [] \<and> length (username s) < 3 \<longrightarrow>
      error (fst (handleSubmit e s)) = ''Username must be at least 3 characters''"
    by (simp add: err validateField_Username)
  show ?thesis
    using required no_call fails e1 e2 e3 by blast
qed

theorem C4_empty_field_witness:
  "error (fst (handleSubmit \<lparr>csrf_meta = Some ''tok'', network = NoReply\<rparr>
      \<lparr>username = [], password = [], error = [], isLoading = False\<rparr>))
     = ''Username is required''
   \<and> requests (snd (handleSubmit \<lparr>csrf_meta = Some ''tok'', network = NoReply\<rparr>
      \<lparr>username = [], password = [], error = [], isLoading = False\<rparr>)) = []
   \<and> error (fst (handleSubmit \<lparr>csrf_meta = Some ''tok'', network = NoReply\<rparr>
      \<lparr>username = ''alice'', password = [], error = [], isLoading = False\<rparr>))
     = ''Password is required''"
  using
    C4_empty_field [of "\<lparr>username = [], password = [], error = [], isLoading = False\<rparr>"
      "\<lparr>csrf_meta = Some ''tok'', network = NoReply\<rparr>"]
    C4_empty_field [of "\<lparr>username = ''alice'', password = [], error = [], isLoading = False\<rparr>"
      "\<lparr>csrf_meta = Some ''tok'', network = NoReply\<rparr>"]
  by simp

text \<open>
  C5, as stated: every password that fails the pattern, with a valid username, gives the
  password-format message. The empty password is shorter than 8 characters and fails
  the pattern, but the rule's required test comes first: the form error is
  \<open>Password is required\<close>.
\<close>

theorem C5_counterexample:
  "error (fst (handleSubmit \<lparr>csrf_meta = Some ''tok'', network = NoReply\<rparr>
      \<lparr>username = ''alice'', password = [], error = [], isLoading = False\<rparr>))
   \<noteq> ''Password must be at least 8 characters and include letters and numbers''"
  by (simp add: handleSubmit_invalid isValid_iff validateField_Username validateField_Password
      password_pattern_def)

text \<open>
  C5, amended: for every submission with a valid username (at least 3 characters) and a
  non-empty password that is shorter than 8 characters, or contains no letter, or
  contains no digit, the password fails the configured pattern, the form error becomes
  \<open>Password must be at least 8 characters and include letters and numbers\<close> and no
  network request is issued.
\<close>

theorem C5_password_format:
  assumes "3 \<le> length (username s)"
    and "password s \<noteq> []"
    and "length (password s) < 8
       \<or> \<not> (\<exists>c \<in> set (password s). is_letter c)
       \<or> \<not> (\<exists>c \<in> set (password s). is_digit c)"
  shows "\<not> password_pattern (password s)
       \<and> error (fst (handleSubmit e s))
           = ''Password must be at least 8 characters and include letters and numbers''
       \<and> requests (snd (handleSubmit e s)) = []"
proof -
  have mismatch: "\<not> password_pattern (password s)"
    using assms(3) by (auto simp: password_pattern_iff)
  then have invalid: "\<not> isValid s"
    by (simp add: isValid_iff)
  have "error (fst (handleSubmit e s)) = password_message"
    using assms(1,2) mismatch invalid
    by (auto simp: handleSubmit_invalid validateField_Username validateField_Password)
  moreover have "requests (snd (handleSubmit e s)) = []"
    using invalid by (simp add: handleSubmit_invalid no_effects_def)
  ultimately show ?thesis
    using mismatch by (simp add: password_message_def)
qed

theorem C5_password_format_witness:
  "error (fst (handleSubmit \<lparr>csrf_meta = Some ''tok'', network = NoReply\<rparr>
      \<lparr>username = ''alice'', password = ''abcdefghij'', error = [], isLoading = False\<rparr>))
     = ''Password must be at least 8 characters and include letters and numbers''
   \<and> requests (snd (handleSubmit \<lparr>csrf_meta = Some ''tok'', network = NoReply\<rparr>
      \<lparr>username = ''alice'', password = ''abcdefghij'', error = [], isLoading = False\<rparr>)) = []"
  using
    C5_password_format [of
      "\<lparr>username = ''alice'', password = ''abcdefghij'', error = [], isLoading = False\<rparr>"
      "\<lparr>csrf_meta = Some ''tok'', network = NoReply\<rparr>"]
  by (simp add: is_digit_def)

section \<open>A successful submission\<close>

text \<open>
  C6. For every submission that passes validation and is answered by a 2xx response
  whose body is an object with \<open>success\<close> true and \<open>user\<close> equal to \<open>u\<close>: exactly one
  request was sent, \<open>setUser\<close> is committed exactly once, with \<open>u\<close>; the \<open>success\<close>
  event is emitted exactly once, with the text \<open>Login successful!\<close>; and the username
  and password fields are what they were.
\<close>

theorem C6_success:
  assumes "isValid s"
    and "csrf_meta e = Some t"
    and "network e = Reply r"
    and "200 \<le> status r" and "status r < 300"
    and "data r = JObj kvs"
    and "map_of kvs ''success'' = Some (JBool True)"
    and "map_of kvs ''user'' = Some u"
  shows "commits (snd (handleSubmit e s)) = [(''setUser'', u)]
       \<and> emits (snd (handleSubmit e s)) = [(''success'', ''Login successful!'')]
       \<and> length (requests (snd (handleSubmit e s))) = 1
       \<and> username (fst (handleSubmit e s)) = username s
       \<and> password (fst (handleSubmit e s)) = password s"
proof -
  let ?s2 = "s\<lparr>error := [], isLoading := True\<rparr>"
  have "try_block e ?s2 =
      (Inr (), (sent_request ?s2 t)\<lparr>commits := [(''setUser'', u)],
                                     emits := [(''success'', ''Login successful!'')]\<rparr>)"
    using assms(2-8) by (simp add: try_block_resolved)
  then show ?thesis
    using assms(1) by (simp add: handleSubmit_valid sent_request_def)
qed

theorem C6_success_witness:
  "commits (snd (handleSubmit
      \<lparr>csrf_meta = Some ''tok'',
       network = Reply \<lparr>status = 200,
         data = JObj [(''success'', JBool True), (''user'', JObj [(''id'', JNum 1)])]\<rparr>\<rparr>
      alice))
     = [(''setUser'', JObj [(''id'', JNum 1)])]
   \<and> emits (snd (handleSubmit
      \<lparr>csrf_meta = Some ''tok'',
       network = Reply \<lparr>status = 200,
         data = JObj [(''success'', JBool True), (''user'', JObj [(''id'', JNum 1)])]\<rparr>\<rparr>
      alice))
     = [(''success'', ''Login successful!'')]
   \<and> username (fst (handleSubmit
      \<lparr>csrf_meta = Some ''tok'',
       network = Reply \<lparr>status = 200,
         data = JObj [(''success'', JBool True), (''user'', JObj [(''id'', JNum 1)])]\<rparr>\<rparr>
      alice))
     = ''alice''"
  using
    C6_success [of alice
      "\<lparr>csrf_meta = Some ''tok'',
        network = Reply \<lparr>status = 200,
          data = JObj [(''success'', JBool True), (''user'', JObj [(''id'', JNum 1)])]\<rparr>\<rparr>"
      "''tok''"
      "\<lparr>status = 200,
        data = JObj [(''success'', JBool True), (''user'', JObj [(''id'', JNum 1)])]\<rparr>"
      "[(''success'', JBool True), (''user'', JObj [(''id'', JNum 1)])]"
      "JObj [(''id'', JNum 1)]"]
  by (simp add: isValid_alice)

section \<open>Network errors and the loading flag\<close>

lemma handleSubmit_cleanup: "isValid s \<Longrightarrow> isLoading (fst (handleSubmit e s)) = False"
  by (simp add: handleSubmit_valid split: prod.splits sum.splits)

lemma handleSubmit_idle: "\<not> isLoading s \<Longrightarrow> isLoading (fst (handleSubmit e s)) = False"
  by (cases "isValid s") (simp_all add: handleSubmit_cleanup handleSubmit_invalid)

lemma step_idle: "\<not> isLoading s \<Longrightarrow> \<not> isLoading (step s ev)"
proof (cases ev)
  case (Input f v)
  assume "\<not> isLoading s"
  then show ?thesis
    using Input by (cases f) simp_all
next
  case (Submit e)
  assume "\<not> isLoading s"
  then show ?thesis
    using Submit by (simp add: handleSubmit_idle)
qed

lemma run_idle: "\<not> isLoading (run evs)"
  unfolding run_def
  by (induction evs rule: rev_induct) (simp_all add: initial_form_def step_idle)

text \<open>
  C7. For a submission that passes validation and whose request fails with no response,
  the form error is \<open>Authentication failed. Please try again.\<close>. On every path through
  \<^verbatim>\<open>try\<close>, \<^verbatim>\<open>catch\<close> and \<^verbatim>\<open>finally\<close> (every submission that passes validation, whatever
  the page and the network do) \<open>isLoading\<close> is false afterwards. A submission that fails
  validation returns before the flag is touched, and the flag is false when a submission
  starts: so after every submission in the life of a form, whatever inputs and
  submissions came before, \<open>isLoading\<close> is false.
\<close>

theorem C7_generic_error_and_cleanup:
  "(isValid s \<and> network e = NoReply \<longrightarrow>
      error (fst (handleSubmit e s)) = ''Authentication failed. Please try again.'')
   \<and> (isValid s \<longrightarrow> isLoading (fst (handleSubmit e s)) = False)
   \<and> (\<not> isLoading s \<longrightarrow> isLoading (fst (handleSubmit e s)) = False)
   \<and> isLoading (fst (handleSubmit e (run evs))) = False"
proof -
  have generic: "error (fst (handleSubmit e s)) = ''Authentication failed. Please try again.''"
    if "isValid s" "network e = NoReply"
    using that
    by (cases "csrf_meta e")
      (simp_all add: handleSubmit_valid try_block_no_meta try_block_no_reply
        catch_error_no_response)
  have cleanup: "isLoading (fst (handleSubmit e s)) = False" if "isValid s"
    using that by (rule handleSubmit_cleanup)
  have early: "isLoading (fst (handleSubmit e s)) = False" if "\<not> isLoading s"
    using that by (rule handleSubmit_idle)
  have reachable: "isLoading (fst (handleSubmit e (run evs))) = False"
    by (rule handleSubmit_idle) (rule run_idle)
  show ?thesis
    using generic cleanup early reachable by blast
qed

theorem C7_generic_error_and_cleanup_witness:
  "error (fst (handleSubmit \<lparr>csrf_meta = Some ''tok'', network = NoReply\<rparr> alice))
     = ''Authentication failed. Please try again.''
   \<and> isLoading (fst (handleSubmit \<lparr>csrf_meta = Some ''tok'', network = NoReply\<rparr> alice)) = False
   \<and> isLoading (fst (handleSubmit \<lparr>csrf_meta = Some ''tok'', network = NoReply\<rparr>
        \<lparr>username = ''ab'', password = [], error = [], isLoading = False\<rparr>)) = False"
  using
    C7_generic_error_and_cleanup [of alice "\<lparr>csrf_meta = Some ''tok'', network = NoReply\<rparr>"]
    C7_generic_error_and_cleanup [of
      "\<lparr>username = ''ab'', password = [], error = [], isLoading = False\<rparr>"
      "\<lparr>csrf_meta = Some ''tok'', network = NoReply\<rparr>"]
  by (simp add: isValid_alice)

section \<open>The first failing field\<close>

text \<open>
  C8. On submit the rules of the username and of the password are evaluated, in this
  order, and the form error is the message of the first field whose rule fails: the
  username's message when the username fails, whatever the password does (it is then
  neither the password's message nor the two messages joined), and the password's
  message when only the password fails. No request is issued in either case.
\<close>

theorem C8_first_failing_field:
  "(validateField s Username \<noteq> [] \<longrightarrow>
      error (fst (handleSubmit e s)) = validateField s Username
      \<and> error (fst (handleSubmit e s)) \<noteq> validateField s Password
      \<and> (validateField s Password \<noteq> [] \<longrightarrow>
           error (fst (handleSubmit e s)) \<noteq> validateField s Username @ validateField s Password
           \<and> error (fst (handleSubmit e s)) \<noteq> validateField s Password @ validateField s Username)
      \<and> requests (snd (handleSubmit e s)) = [])
   \<and> (validateField s Username = [] \<and> validateField s Password \<noteq> [] \<longrightarrow>
      error (fst (handleSubmit e s)) = validateField s Password
      \<and> requests (snd (handleSubmit e s)) = [])"
proof -
  have invalid: "\<not> isValid s"
    if "validateField s Username \<noteq> [] \<or> validateField s Password \<noteq> []"
    using that
    by (auto simp: isValid_iff validateField_Username validateField_Password
        split: if_splits dest: password_pattern_nonempty)
  have distinct: "validateField s Username \<noteq> validateField s Password"
    if "validateField s Username \<noteq> []"
    using that
    by (auto simp: validateField_Username validateField_Password password_message_def
        split: if_splits)
  have err: "error (fst (handleSubmit e s)) =
      (if validateField s Username \<noteq> [] then validateField s Username
       else validateField s Password)"
    and no_call: "requests (snd (handleSubmit e s)) = []"
    if "validateField s Username \<noteq> [] \<or> validateField s Password \<noteq> []"
    using invalid [OF that] by (simp_all add: handleSubmit_invalid no_effects_def)
  show ?thesis
    using err no_call distinct by auto
qed

theorem C8_first_failing_field_witness:
  "error (fst (handleSubmit \<lparr>csrf_meta = Some ''tok'', network = NoReply\<rparr>
      \<lparr>username = ''ab'', password = ''short'', error = [], isLoading = False\<rparr>))
     = ''Username must be at least 3 characters''
   \<and> error (fst (handleSubmit \<lparr>csrf_meta = Some ''tok'', network = NoReply\<rparr>
      \<lparr>username = ''alice'', password = ''short'', error = [], isLoading = False\<rparr>))
     = ''Password must be at least 8 characters and include letters and numbers''"
  using
    C8_first_failing_field [of
      "\<lparr>username = ''ab'', password = ''short'', error = [], isLoading = False\<rparr>"
      "\<lparr>csrf_meta = Some ''tok'', network = NoReply\<rparr>"]
    C8_first_failing_field [of
      "\<lparr>username = ''alice'', password = ''short'', error = [], isLoading = False\<rparr>"
      "\<lparr>csrf_meta = Some ''tok'', network = NoReply\<rparr>"]
  by (simp add: validateField_Username validateField_Password password_pattern_def
      password_message_def)

section \<open>The submit gate\<close>

text \<open>
  C10. The computed \<open>isValid\<close> is true for a username and a password exactly when
  \<open>validateForm\<close> returns true for them, and that is when the username has at least 3
  characters and the password matches the configured pattern.
\<close>

theorem C10_gate_agrees:
  "isValid s = snd (validateForm s)
   \<and> isValid s = (3 \<le> length (username s) \<and> password_pattern (password s))"
  by (simp add: validateForm_ok isValid_iff)

theorem C10_gate_agrees_witness:
  "snd (validateForm alice)
   \<and> snd (validateForm
        \<lparr>username = ''ab'', password = ''passw0rd1'', error = [], isLoading = False\<rparr>)
       = False"
  using C10_gate_agrees [of alice]
    C10_gate_agrees [of
      "\<lparr>username = ''ab'', password = ''passw0rd1'', error = [], isLoading = False\<rparr>"]
  by (auto simp: isValid_alice)

section \<open>The identifier of a field's input\<close>

lemma hyphenate_runs_in_run:
  "hyphenate_runs True xs = hyphenate_runs False (dropWhile is_whitespace xs)"
  by (induction xs) auto

lemma replace_ws_hyphenate_runs: "replace_ws xs = hyphenate_runs False xs"
  by (induction xs rule: replace_ws.induct) (auto simp: hyphenate_runs_in_run)

lemma hyphen_not_whitespace: "\<not> is_whitespace CHR ''-''"
  by (simp add: is_whitespace_def)

lemma replace_ws_no_whitespace: "c \<in> set (replace_ws xs) \<Longrightarrow> \<not> is_whitespace c"
  by (induction xs rule: replace_ws.induct) (auto simp: hyphen_not_whitespace split: if_splits)

lemma replace_ws_unchanged: "\<not> (\<exists>c \<in> set xs. is_whitespace c) \<Longrightarrow> replace_ws xs = xs"
  by (induction xs) auto

lemma replace_ws_run:
  assumes "ws \<noteq> []" and "list_all is_whitespace ws"
    and "ys = [] \<or> \<not> is_whitespace (hd ys)"
  shows "replace_ws (ws @ ys) = CHR ''-'' # replace_ws ys"
proof -
  obtain w ws' where ws: "ws = w # ws'"
    using assms(1) by (cases ws) auto
  have "dropWhile is_whitespace (ws' @ ys) = ys"
    using assms(2,3) unfolding ws
    by (cases ys) (auto simp: list_all_iff dropWhile_append)
  then show ?thesis
    using assms(2) by (simp add: ws)
qed

text \<open>
  C9. The identifier is a function of the label alone: \<open>field-\<close> followed by the label in
  lower case with each run of whitespace replaced by one hyphen. For the label
  \<open>User Name\<close> it is \<open>field-user-name\<close>.
\<close>

theorem C9_inputId:
  "inputId label = spec_inputId label
   \<and> inputId ''User Name'' = ''field-user-name''"
proof
  show "inputId label = spec_inputId label"
    by (simp add: inputId_def spec_inputId_def toLowerCase_def replace_ws_hyphenate_runs)
  show "inputId ''User Name'' = ''field-user-name''"
    by (simp add: inputId_def toLowerCase_def toLowerCase_char_def is_upper_ascii_def
        is_whitespace_def char_of_eq_iff)
qed

theorem C9_inputId_witness:
  "inputId ''User   Name'' = ''field-user-name''
   \<and> spec_inputId ''User Name'' = ''field-user-name''"
  using C9_inputId [of "''User   Name''"] C9_inputId [of "''User Name''"]
  by (simp add: spec_inputId_def toLowerCase_char_def is_upper_ascii_def is_whitespace_def
      char_of_eq_iff)

end
